theory Spec2Isabelle
  imports Main "HOL-Library.Sublist"
begin

section \<open>JavaScript values carried by the count fields\<close>

text \<open>
  The backend's JSON replies are read field by field. A count field
  (\<open>remaining_chats\<close>, \<open>remaining\<close>, \<open>chat_count\<close>, \<open>used\<close>) is a JSON number,
  a boolean, \<open>null\<close>, or missing (\<open>undefined\<close>); arithmetic on it can give \<open>NaN\<close>.
  Numbers are the integers of the data model (chat counts, with \<open>-1\<close> for unlimited);
  on such values JavaScript's number arithmetic is exact. String-valued count fields
  are outside this model.
\<close>

datatype jsval = JUndefined | JNull | JBool bool | JNum int | JNaN

text \<open>The abstract operation ToNumber; \<open>None\<close> stands for \<open>NaN\<close>.\<close>

fun ToNumber :: "jsval \<Rightarrow> int option" where
  "ToNumber JUndefined = None"
| "ToNumber JNull = Some 0"
| "ToNumber (JBool b) = Some (if b then 1 else 0)"
| "ToNumber (JNum n) = Some n"
| "ToNumber JNaN = None"

text \<open>\<open>v > n\<close> for a number literal \<open>n\<close>: false as soon as \<open>v\<close> converts to \<open>NaN\<close>.\<close>

definition js_gt :: "jsval \<Rightarrow> int \<Rightarrow> bool" where
  "js_gt v n = (case ToNumber v of None \<Rightarrow> False | Some k \<Rightarrow> n < k)"

text \<open>\<open>v === n\<close> for a number literal \<open>n\<close>: no conversion.\<close>

definition js_strict_eq :: "jsval \<Rightarrow> int \<Rightarrow> bool" where
  "js_strict_eq v n = (v = JNum n)"

text \<open>\<open>n - v\<close> for a number \<open>n\<close>.\<close>

definition js_minus :: "int \<Rightarrow> jsval \<Rightarrow> jsval" where
  "js_minus n v = (case ToNumber v of None \<Rightarrow> JNaN | Some k \<Rightarrow> JNum (n - k))"

text \<open>\<open>v ?? w\<close>: the right operand when the left one is \<open>null\<close> or \<open>undefined\<close>.\<close>

definition js_nullish :: "jsval \<Rightarrow> jsval \<Rightarrow> jsval" where
  "js_nullish v w = (if v = JUndefined \<or> v = JNull then w else v)"

fun truthy :: "jsval \<Rightarrow> bool" where
  "truthy JUndefined = False"
| "truthy JNull = False"
| "truthy (JBool b) = b"
| "truthy (JNum n) = (n \<noteq> 0)"
| "truthy JNaN = False"

text \<open>\<open>v || w\<close>: the left operand when it is truthy.\<close>

definition js_or :: "jsval \<Rightarrow> jsval \<Rightarrow> jsval" where
  "js_or v w = (if truthy v then v else w)"

section \<open>Remote calls\<close>

text \<open>
  What an awaited \<open>fetch\<close> followed by \<open>response.json()\<close> can give: the request
  rejects (\<open>NetworkError\<close>), or a response arrives with its HTTP status and a body;
  the body is \<open>None\<close> when \<open>response.json()\<close> rejects.
\<close>

datatype 'a fetch_result = NetworkError | Response nat "'a option"

text \<open>\<open>response.ok\<close>: the status is in the range 200 to 299.\<close>

definition ok :: "nat \<Rightarrow> bool" where
  "ok st = (200 \<le> st \<and> st \<le> 299)"

section \<open>Session state manager (hooks/useAuth.js)\<close>

record profile =
  google_id :: string
  email :: string
  user_chat_count :: jsval

record chat_limits =
  remaining :: jsval
  used :: jsval
  canChat :: bool

text \<open>
  The fields the hook reads from the JSON replies of the login, status and
  chat-limit endpoints. A missing count field is \<open>JUndefined\<close>, a missing or null
  \<open>user\<close> is \<open>None\<close>.
\<close>

record api_data =
  access_token :: string
  data_user :: "profile option"
  remaining_chats :: jsval
  data_remaining :: jsval
  chat_count :: jsval
  data_used :: jsval

text \<open>
  The two persisted entries, \<open>auth_token\<close> and \<open>user_info\<close>. The second holds the
  serialised profile; the model keeps the profile itself.
\<close>

record local_storage =
  auth_token :: "string option"
  user_info :: "profile option"

record auth_state =
  user :: "profile option"
  token :: "string option"
  isAuthenticated :: bool
  isLoading :: bool
  chatLimits :: chat_limits
  localStorage :: local_storage

text \<open>
  \<open>LIMITS.FREE_CHAT_LIMIT\<close> comes from \<open>utils/constants\<close>, which is not among the
  sources: every operation that reads it takes it as the parameter \<open>FREE_CHAT_LIMIT\<close>.
\<close>

text \<open>The state of the hook at its first render, over the storage found at load.\<close>

definition useAuth_init :: "int \<Rightarrow> local_storage \<Rightarrow> auth_state" where
  "useAuth_init FREE_CHAT_LIMIT ls =
     \<lparr>user = None, token = auth_token ls, isAuthenticated = False, isLoading = False,
      chatLimits = \<lparr>remaining = JNum FREE_CHAT_LIMIT, used = JNum 0, canChat = True\<rparr>,
      localStorage = ls\<rparr>"

text \<open>\<open>!token\<close> is true for \<open>null\<close> and for the empty string.\<close>

definition has_token :: "auth_state \<Rightarrow> bool" where
  "has_token s = (case token s of None \<Rightarrow> False | Some t \<Rightarrow> t \<noteq> [])"

definition logout :: "int \<Rightarrow> auth_state \<Rightarrow> auth_state" where
  "logout FREE_CHAT_LIMIT s =
     s\<lparr>token := None, user := None, isAuthenticated := False,
       chatLimits := \<lparr>remaining = JNum FREE_CHAT_LIMIT, used = JNum 0, canChat = True\<rparr>,
       localStorage := \<lparr>auth_token = None, user_info = None\<rparr>\<rparr>"

text \<open>
  \<open>handleGoogleLogin\<close>, given the outcome of the login request. A reply that is not
  ok throws, as does reading \<open>data.user.email\<close> for the log line when the reply has
  no user; the handler catches every exception and logs out. \<open>isLoading\<close> is cleared
  in the \<open>finally\<close> block.
\<close>

definition login_success :: "api_data \<Rightarrow> auth_state \<Rightarrow> auth_state" where
  "login_success data s =
     (let chatCount =
            js_or (js_or (case data_user data of None \<Rightarrow> JUndefined
                          | Some u \<Rightarrow> user_chat_count u)
                         (chat_count data))
                  (JNum 0)
      in s\<lparr>token := Some (access_token data), user := data_user data,
           isAuthenticated := True,
           chatLimits :=
             \<lparr>remaining = remaining_chats data, used = chatCount,
              canChat = (js_gt (remaining_chats data) 0 \<or> js_strict_eq (remaining_chats data) (- 1))\<rparr>,
           localStorage := \<lparr>auth_token = Some (access_token data), user_info = data_user data\<rparr>\<rparr>)"

definition handleGoogleLogin :: "int \<Rightarrow> api_data fetch_result \<Rightarrow> auth_state \<Rightarrow> auth_state" where
  "handleGoogleLogin FREE_CHAT_LIMIT loginResponse s =
     (let s1 = s\<lparr>isLoading := True\<rparr>;
          s2 = (case loginResponse of
                  NetworkError \<Rightarrow> logout FREE_CHAT_LIMIT s1
                | Response st body \<Rightarrow>
                    if \<not> ok st then logout FREE_CHAT_LIMIT s1
                    else (case body of
                            None \<Rightarrow> logout FREE_CHAT_LIMIT s1
                          | Some data \<Rightarrow>
                              (case data_user data of
                                 None \<Rightarrow> logout FREE_CHAT_LIMIT (login_success data s1)
                               | Some u \<Rightarrow> login_success data s1)))
      in s2\<lparr>isLoading := False\<rparr>)"

text \<open>
  \<open>fetchUserStatus\<close>, given the outcome of the status request. Without a token no
  request is made. Any exception (a rejected request, a body that does not parse) is
  caught and logged.
\<close>

definition fetchUserStatus :: "int \<Rightarrow> api_data fetch_result \<Rightarrow> auth_state \<Rightarrow> auth_state" where
  "fetchUserStatus FREE_CHAT_LIMIT response s =
     (if \<not> has_token s then s
      else (case response of
              NetworkError \<Rightarrow> s
            | Response st body \<Rightarrow>
                if ok st then
                  (case body of
                     None \<Rightarrow> s
                   | Some data \<Rightarrow>
                       (let s1 = (case data_user data of
                                    None \<Rightarrow> s
                                  | Some u \<Rightarrow>
                                      s\<lparr>user := Some u,
                                        localStorage := (localStorage s)\<lparr>user_info := Some u\<rparr>\<rparr>);
                            remaining' = js_nullish (js_nullish (remaining_chats data) (data_remaining data))
                                           (JNum (- 1));
                            used' = js_nullish (js_nullish (chat_count data) (data_used data)) (JNum 0)
                        in s1\<lparr>chatLimits :=
                                \<lparr>remaining = remaining', used = used',
                                 canChat = (js_gt remaining' 0 \<or> js_strict_eq remaining' (- 1))\<rparr>\<rparr>))
                else if st = 401 then logout FREE_CHAT_LIMIT s
                else s))"

text \<open>
  \<open>checkChatLimits\<close>, given the outcome of the chat-limit request: the new state and
  the boolean it returns.
\<close>

definition checkChatLimits :: "int \<Rightarrow> api_data fetch_result \<Rightarrow> auth_state \<Rightarrow> auth_state \<times> bool" where
  "checkChatLimits FREE_CHAT_LIMIT response s =
     (if \<not> has_token s then (s, False)
      else (case response of
              NetworkError \<Rightarrow> (s, False)
            | Response st body \<Rightarrow>
                if ok st then
                  (case body of
                     None \<Rightarrow> (s, False)
                   | Some data \<Rightarrow>
                       (s\<lparr>chatLimits :=
                            \<lparr>remaining = remaining_chats data,
                             used = js_minus FREE_CHAT_LIMIT (remaining_chats data),
                             canChat = (js_gt (remaining_chats data) 0
                                        \<or> js_strict_eq (remaining_chats data) (- 1))\<rparr>\<rparr>,
                        js_gt (remaining_chats data) 0 \<or> js_strict_eq (remaining_chats data) (- 1)))
                else (s, False)))"

definition updateChatLimits :: "jsval \<Rightarrow> jsval \<Rightarrow> auth_state \<Rightarrow> auth_state" where
  "updateChatLimits newRemaining newUsed s =
     s\<lparr>chatLimits :=
         \<lparr>remaining = newRemaining, used = newUsed,
          canChat = (js_gt newRemaining 0 \<or> js_strict_eq newRemaining (- 1))\<rparr>\<rparr>"

text \<open>
  The derivation the data model asks of every snapshot:
  \<open>canChat\<close> is \<open>remaining > 0 || remaining === -1\<close>.
\<close>

definition canChat_derived :: "chat_limits \<Rightarrow> bool" where
  "canChat_derived c = (canChat c = (js_gt (remaining c) 0 \<or> js_strict_eq (remaining c) (- 1)))"

text \<open>When \<open>fetchUserStatus\<close> and \<open>checkChatLimits\<close> reach a call of \<open>setChatLimits\<close>.\<close>

definition fetchUserStatus_sets :: "api_data fetch_result \<Rightarrow> auth_state \<Rightarrow> bool" where
  "fetchUserStatus_sets response s =
     (has_token s \<and>
      (case response of
         NetworkError \<Rightarrow> False
       | Response st body \<Rightarrow> (if ok st then body \<noteq> None else st = 401)))"

definition checkChatLimits_sets :: "api_data fetch_result \<Rightarrow> auth_state \<Rightarrow> bool" where
  "checkChatLimits_sets response s =
     (has_token s \<and>
      (case response of
         NetworkError \<Rightarrow> False
       | Response st body \<Rightarrow> ok st \<and> body \<noteq> None))"

text \<open>Sample values for the concrete instances below.\<close>

definition sample_profile :: profile where
  "sample_profile = \<lparr>google_id = ''g-17'', email = ''ada@example.org'', user_chat_count = JNum 2\<rparr>"

definition sample_data :: api_data where
  "sample_data =
     \<lparr>access_token = ''tok-2'', data_user = Some sample_profile, remaining_chats = JNum 3,
      data_remaining = JUndefined, chat_count = JNum 1, data_used = JUndefined\<rparr>"

definition sample_session :: auth_state where
  "sample_session =
     \<lparr>user = Some sample_profile, token = Some ''tok-1'', isAuthenticated = True,
      isLoading = False,
      chatLimits = \<lparr>remaining = JNum 4, used = JNum 6, canChat = True\<rparr>,
      localStorage = \<lparr>auth_token = Some ''tok-1'', user_info = Some sample_profile\<rparr>\<rparr>"

section \<open>Effects observable outside the components\<close>

text \<open>
  What a handler does besides updating component state, in the order it happens:
  modal alerts, error lines on the console, calls of the callback props, the
  confirmation dialog, the new browsing context and the requests that carry a payload
  of their own. Informational \<open>console.log\<close> lines are left out.
\<close>

datatype effect =
    Alert string
  | ConsoleError string
  | Confirm string
  | WindowOpen string
  | OpenUpgradeModal
  | TrackDownloadPost nat string
  | VerifyPaymentPost string string string string
  | UpgradeSuccessCall
  | CloseCall

section \<open>Library browser (components/library/Library.jsx)\<close>

text \<open>
  A catalog entry as the data model describes it. The folder id is the one field the
  code tests for absence.
\<close>

record library_domain =
  domain_id :: nat
  name :: string
  description :: string
  category :: string
  file_count :: nat
  total_size_readable :: string
  gdrive_folder_id :: "string option"

record library_data =
  data_domains :: "library_domain list"
  data_categories :: "string list"

record library_state =
  domains :: "library_domain list"
  filteredDomains :: "library_domain list"
  searchTerm :: string
  selectedCategory :: string
  categories :: "string list"
  viewMode :: string
  loading :: bool
  selectedDomain :: "library_domain option"
  downloadModalOpen :: bool

definition Library_init :: library_state where
  "Library_init =
     \<lparr>domains = [], filteredDomains = [], searchTerm = [], selectedCategory = ''All'',
      categories = [], viewMode = ''grid'', loading = True, selectedDomain = None,
      downloadModalOpen = False\<rparr>"

text \<open>\<open>chatLimits?.remaining === -1\<close>, over the \<open>chatLimits\<close> prop, which may be absent.\<close>

definition isPremium :: "chat_limits option \<Rightarrow> bool" where
  "isPremium chatLimits' =
     (case chatLimits' of None \<Rightarrow> False | Some c \<Rightarrow> js_strict_eq (remaining c) (- 1))"

definition fetchDomains :: "library_data fetch_result \<Rightarrow> library_state \<Rightarrow> library_state \<times> effect list" where
  "fetchDomains response s =
     (let s1 = s\<lparr>loading := True\<rparr>;
          failed = (s1\<lparr>loading := False\<rparr>, [ConsoleError ''Error fetching domains:''])
      in (case response of
            NetworkError \<Rightarrow> failed
          | Response st body \<Rightarrow>
              if \<not> ok st then failed
              else (case body of
                      None \<Rightarrow> failed
                    | Some data \<Rightarrow>
                        (s1\<lparr>domains := data_domains data,
                            categories := ''All'' # data_categories data,
                            filteredDomains := data_domains data,
                            loading := False\<rparr>, []))))"

text \<open>
  Text is held in UTF-8, one \<open>char\<close> per byte. On well-formed text \<open>includes\<close>
  finds the same occurrences over these bytes as over the UTF-16 code units of the
  platform.
\<close>

text \<open>\<open>s.includes(t)\<close>: \<open>t\<close> starts at some position of \<open>s\<close>.\<close>

fun js_includes :: "string \<Rightarrow> string \<Rightarrow> bool" where
  "js_includes [] t = (t = [])"
| "js_includes (c # cs) t = (prefix t (c # cs) \<or> js_includes cs t)"

text \<open>
  \<open>String.prototype.toLowerCase\<close> is a built-in of the platform, driven by the case
  tables of Unicode; neither is among the sources. \<open>filterDomains\<close> takes the built-in
  as the parameter \<open>toLowerCase\<close>.
\<close>

text \<open>The local variable \<open>filtered\<close> of \<open>filterDomains\<close> after its two steps.\<close>

definition filtered ::
  "(string \<Rightarrow> string) \<Rightarrow> library_domain list \<Rightarrow> string \<Rightarrow> string \<Rightarrow> library_domain list" where
  "filtered toLowerCase domains' searchTerm' selectedCategory' =
     (let f1 = (if selectedCategory' \<noteq> ''All''
                then filter (\<lambda>d. category d = selectedCategory') domains'
                else domains');
          f2 = (if searchTerm' \<noteq> []
                then filter (\<lambda>d. js_includes (toLowerCase (name d)) (toLowerCase searchTerm')
                                \<or> js_includes (toLowerCase (description d)) (toLowerCase searchTerm')) f1
                else f1)
      in f2)"

definition filterDomains :: "(string \<Rightarrow> string) \<Rightarrow> library_state \<Rightarrow> library_state" where
  "filterDomains toLowerCase s =
     s\<lparr>filteredDomains := filtered toLowerCase (domains s) (searchTerm s) (selectedCategory s)\<rparr>"

definition handleDomainClick ::
  "chat_limits option \<Rightarrow> library_domain \<Rightarrow> library_state \<Rightarrow> library_state \<times> effect list" where
  "handleDomainClick chatLimits' domain s =
     (if \<not> isPremium chatLimits' then (s, [OpenUpgradeModal])
      else (s\<lparr>selectedDomain := Some domain, downloadModalOpen := True\<rparr>, []))"

text \<open>The condition under which the component renders the download confirmation.\<close>

definition DownloadModal_rendered :: "chat_limits option \<Rightarrow> library_state \<Rightarrow> bool" where
  "DownloadModal_rendered chatLimits' s =
     (downloadModalOpen s \<and> selectedDomain s \<noteq> None \<and> isPremium chatLimits')"

text \<open>
  \<open>trackDownload\<close> posts \<open>{domain_id, download_type}\<close>; a rejected request is
  logged and nothing else happens.
\<close>

definition trackDownload :: "nat \<Rightarrow> string \<Rightarrow> unit fetch_result \<Rightarrow> effect list" where
  "trackDownload domainId type response =
     TrackDownloadPost domainId type #
     (case response of
        NetworkError \<Rightarrow> [ConsoleError ''Error tracking download:'']
      | Response st body \<Rightarrow> [])"

text \<open>What \<open>window.open\<close> gives back, as far as \<open>handleDownload\<close> tells the cases apart.\<close>

datatype window_result =
    NullWindow
  | ClosedWindow
  | WindowWithoutClosed
  | OpenedWindow
  | OpenThrows

definition newline :: string where
  "newline = [CHR 0x0A]"

text \<open>The cross mark U+274C that opens the popup alert, in UTF-8.\<close>

definition cross_mark :: string where
  "cross_mark = [CHR 0xE2, CHR 0x9D, CHR 0x8C]"

definition confirm_message :: "string \<Rightarrow> string \<Rightarrow> string" where
  "confirm_message type domain_name =
     (if type = ''zip''
      then ''This will open the '' @ domain_name @ '' folder in Google Drive.'' @ newline @ newline
           @ ''You can download all files as a ZIP from there.'' @ newline @ newline @ ''Continue?''
      else ''This will open the '' @ domain_name @ '' folder in Google Drive.'' @ newline @ newline
           @ ''You can select and download files from there.'' @ newline @ newline @ ''Continue?'')"

text \<open>
  \<open>handleDownload\<close>, given the answer to the confirmation dialog, the result of
  \<open>window.open\<close> and the outcome of the tracking request.
\<close>

definition handleDownload ::
  "chat_limits option \<Rightarrow> string \<Rightarrow> bool \<Rightarrow> window_result \<Rightarrow> unit fetch_result \<Rightarrow>
   library_state \<Rightarrow> library_state \<times> effect list" where
  "handleDownload chatLimits' type confirmed newWindow trackResponse s =
     (case selectedDomain s of
        None \<Rightarrow> (s, [])
      | Some sel \<Rightarrow>
          if \<not> isPremium chatLimits' then (s\<lparr>downloadModalOpen := False\<rparr>, [OpenUpgradeModal])
          else (case gdrive_folder_id sel of
                  None \<Rightarrow> (s, [Alert (''Google Drive folder not found for '' @ name sel)])
                | Some folderId \<Rightarrow>
                    if folderId = [] then (s, [Alert (''Google Drive folder not found for '' @ name sel)])
                    else
                      (let driveUrl = ''https://drive.google.com/drive/folders/'' @ folderId @ ''?usp=sharing'';
                           asked = [Confirm (confirm_message type (name sel))]
                       in if \<not> confirmed then (s, asked)
                          else (case newWindow of
                                  OpenThrows \<Rightarrow>
                                    (s, asked @ [WindowOpen driveUrl, ConsoleError ''Download error:'',
                                                 Alert ''Failed to open Google Drive. Please try again.''])
                                | OpenedWindow \<Rightarrow>
                                    (s\<lparr>downloadModalOpen := False\<rparr>,
                                     asked @ [WindowOpen driveUrl] @ trackDownload (domain_id sel) type trackResponse)
                                | _ \<Rightarrow>
                                    (s, asked @ [WindowOpen driveUrl,
                                                 Alert (cross_mark @ '' Popup blocked!'' @ newline @ newline
                                                        @ ''Please allow popups for this site and try again.'')])))))"

text \<open>
  What the built-in does on ASCII text: the letters A to Z go to a to z, every other
  character stays, and nothing depends on the neighbours of a character.
\<close>

definition ascii_lower_char :: "char \<Rightarrow> char" where
  "ascii_lower_char c =
     (case map_of (zip ''ABCDEFGHIJKLMNOPQRSTUVWXYZ'' ''abcdefghijklmnopqrstuvwxyz'') c of
        None \<Rightarrow> c
      | Some l \<Rightarrow> l)"

definition ascii_toLowerCase :: "string \<Rightarrow> string" where
  "ascii_toLowerCase s = map ascii_lower_char s"

definition is_ascii :: "string \<Rightarrow> bool" where
  "is_ascii s = list_all (\<lambda>c. (of_char c :: nat) < 128) s"

definition lowers_ascii :: "(string \<Rightarrow> string) \<Rightarrow> bool" where
  "lowers_ascii toLowerCase = (\<forall>s. is_ascii s \<longrightarrow> toLowerCase s = ascii_toLowerCase s)"

text \<open>
  What \<open>filterDomains\<close> keeps, in one condition: the search term is empty or its
  lower-cased form is a substring of the lower-cased name or of the lower-cased
  description, and the category is the selected one, every category passing when the
  selection is \<open>All\<close>.
\<close>

definition lowered_matches :: "(string \<Rightarrow> string) \<Rightarrow> string \<Rightarrow> string \<Rightarrow> library_domain \<Rightarrow> bool" where
  "lowered_matches toLowerCase searchTerm' selectedCategory' d =
     ((searchTerm' = [] \<or> sublist (toLowerCase searchTerm') (toLowerCase (name d))
                       \<or> sublist (toLowerCase searchTerm') (toLowerCase (description d)))
      \<and> (selectedCategory' = ''All'' \<or> category d = selectedCategory'))"

text \<open>
  The filter as the specification words it: an entry is kept when its name or its
  description contains the search term as a substring up to the case of letters, and
  its category is the selected one, every category passing when the selection is
  \<open>All\<close>. Two characters are the same up to case when they are equal, or one is a
  capital letter from A to Z and the other stands 32 places after it, which is its
  small form.
\<close>

definition is_upper :: "char \<Rightarrow> bool" where
  "is_upper c = (65 \<le> (of_char c :: nat) \<and> (of_char c :: nat) \<le> 90)"

definition same_letter :: "char \<Rightarrow> char \<Rightarrow> bool" where
  "same_letter c d =
     (c = d \<or> (is_upper c \<and> (of_char d :: nat) = of_char c + 32)
            \<or> (is_upper d \<and> (of_char c :: nat) = of_char d + 32))"

definition same_ignoring_case :: "string \<Rightarrow> string \<Rightarrow> bool" where
  "same_ignoring_case a b = list_all2 same_letter a b"

definition contains_ignoring_case :: "string \<Rightarrow> string \<Rightarrow> bool" where
  "contains_ignoring_case s t = (\<exists>before part after. s = before @ part @ after \<and> same_ignoring_case part t)"

definition spec_matches :: "string \<Rightarrow> string \<Rightarrow> library_domain \<Rightarrow> bool" where
  "spec_matches searchTerm' selectedCategory' d =
     ((contains_ignoring_case (name d) searchTerm' \<or> contains_ignoring_case (description d) searchTerm')
      \<and> (selectedCategory' = ''All'' \<or> category d = selectedCategory'))"

section \<open>Upgrade flow (components/auth/UpgradePrompt.jsx)\<close>

record payment_response =
  razorpay_order_id :: string
  razorpay_payment_id :: string
  razorpay_signature :: string

text \<open>The one field read from the verification reply; \<open>None\<close> when it is missing.\<close>

record verify_data =
  verify_status :: "string option"

text \<open>How an awaited call of a callback prop ends.\<close>

datatype callback_result = Resolves | Rejects

text \<open>The party popper U+1F389 that opens the success alert, in UTF-8.\<close>

definition party_popper :: string where
  "party_popper = [CHR 0xF0, CHR 0x9F, CHR 0x8E, CHR 0x89]"

text \<open>
  The checkout widget's success \<open>handler\<close>, given the outcome of the verification
  request and the \<open>onUpgradeSuccess\<close> prop (\<open>None\<close> when the caller passes none,
  otherwise how its call ends). The HTTP status of the reply is not looked at: the
  branch is taken on the \<open>status\<close> field of its body. Everything from the request to
  \<open>onClose()\<close> stands in one \<open>try\<close> block whose \<open>catch\<close> shows the support alert.
\<close>

definition handler ::
  "profile \<Rightarrow> payment_response \<Rightarrow> verify_data fetch_result \<Rightarrow> callback_result option \<Rightarrow> effect list" where
  "handler user' response verifyResponse onUpgradeSuccess =
     (let caught =
            [ConsoleError ''Verification error:'',
             Alert (''Payment received but verification failed. Contact support with Payment ID: ''
                    @ razorpay_payment_id response)];
          request =
            VerifyPaymentPost (razorpay_order_id response) (razorpay_payment_id response)
              (razorpay_signature response) (google_id user')
      in request #
         (case verifyResponse of
            NetworkError \<Rightarrow> caught
          | Response st body \<Rightarrow>
              (case body of
                 None \<Rightarrow> caught
               | Some verifyData \<Rightarrow>
                   if verify_status verifyData = Some ''success'' then
                     Alert (party_popper @ '' Payment Successful! You now have unlimited chats!'') #
                     (case onUpgradeSuccess of
                        None \<Rightarrow> [CloseCall]
                      | Some Resolves \<Rightarrow> [UpgradeSuccessCall, CloseCall]
                      | Some Rejects \<Rightarrow> UpgradeSuccessCall # caught)
                   else caught)))"

text \<open>Sample values for the concrete instances below.\<close>

definition health_census :: library_domain where
  "health_census =
     \<lparr>domain_id = 1, name = ''Health Census'', description = ''Household survey tables'',
      category = ''Social'', file_count = 12, total_size_readable = ''48 MB'',
      gdrive_folder_id = None\<rparr>"

definition road_network :: library_domain where
  "road_network =
     \<lparr>domain_id = 2, name = ''Road Network'', description = ''Highway segments'',
      category = ''Infrastructure'', file_count = 7, total_size_readable = ''310 MB'',
      gdrive_folder_id = Some ''folder-2''\<rparr>"

definition premium_limits :: chat_limits where
  "premium_limits = \<lparr>remaining = JNum (- 1), used = JNum 40, canChat = True\<rparr>"

definition exhausted_limits :: chat_limits where
  "exhausted_limits = \<lparr>remaining = JNum 0, used = JNum 10, canChat = False\<rparr>"

definition sample_library :: library_state where
  "sample_library =
     \<lparr>domains = [health_census, road_network], filteredDomains = [health_census, road_network],
      searchTerm = [], selectedCategory = ''All'', categories = [''All'', ''Social'', ''Infrastructure''],
      viewMode = ''grid'', loading = False, selectedDomain = None, downloadModalOpen = False\<rparr>"

text \<open>
  A Greek sample. \<open>dosi\<close> is the word of the capitals Delta, Omicron, Sigma, Eta
  (U+0394, U+039F, U+03A3, U+0397) and \<open>dos\<close> its first three letters. Lower-cased,
  the first is delta, omicron, sigma, eta (U+03B4, U+03BF, U+03C3, U+03B7); in the
  second the capital sigma ends the word and becomes the final sigma U+03C2 (the
  Final_Sigma condition of Unicode's special casing, which the built-in applies).
\<close>

definition dosi :: string where
  "dosi = [CHR 0xCE, CHR 0x94, CHR 0xCE, CHR 0x9F, CHR 0xCE, CHR 0xA3, CHR 0xCE, CHR 0x97]"

definition dos :: string where
  "dos = [CHR 0xCE, CHR 0x94, CHR 0xCE, CHR 0x9F, CHR 0xCE, CHR 0xA3]"

definition dosi_lowered :: string where
  "dosi_lowered = [CHR 0xCE, CHR 0xB4, CHR 0xCE, CHR 0xBF, CHR 0xCF, CHR 0x83, CHR 0xCE, CHR 0xB7]"

definition dos_lowered :: string where
  "dos_lowered = [CHR 0xCE, CHR 0xB4, CHR 0xCE, CHR 0xBF, CHR 0xCF, CHR 0x82]"

text \<open>
  The built-in at the two Greek words, and on ASCII text; no other value of it is used
  where this function stands in for it.
\<close>

definition toLowerCase_sample :: "string \<Rightarrow> string" where
  "toLowerCase_sample s =
     (if s = dosi then dosi_lowered else if s = dos then dos_lowered else ascii_toLowerCase s)"

definition dosi_entry :: library_domain where
  "dosi_entry =
     \<lparr>domain_id = 3, name = dosi, description = ''Tax instalments'',
      category = ''Economic'', file_count = 4, total_size_readable = ''9 MB'',
      gdrive_folder_id = Some ''folder-3''\<rparr>"

definition sample_payment :: payment_response where
  "sample_payment =
     \<lparr>razorpay_order_id = ''order_9'', razorpay_payment_id = ''pay_42'', razorpay_signature = ''sig''\<rparr>"

section \<open>Properties of the session state manager\<close>

lemma canChat_derived_logout:
  "0 < FREE_CHAT_LIMIT \<Longrightarrow> canChat_derived (chatLimits (logout FREE_CHAT_LIMIT s))"
  by (simp add: canChat_derived_def logout_def js_gt_def)

lemma canChat_derived_login_success:
  "canChat_derived (chatLimits (login_success data s))"
  by (simp add: canChat_derived_def login_success_def Let_def)

lemma canChat_derived_handleGoogleLogin:
  "0 < FREE_CHAT_LIMIT \<Longrightarrow>
   canChat_derived (chatLimits (handleGoogleLogin FREE_CHAT_LIMIT loginResponse s))"
  by (simp add: handleGoogleLogin_def Let_def canChat_derived_logout
      canChat_derived_login_success split: fetch_result.split option.split)

lemma canChat_derived_set:
  "canChat_derived \<lparr>remaining = r, used = u, canChat = (js_gt r 0 \<or> js_strict_eq r (- 1))\<rparr>"
  by (simp add: canChat_derived_def)

lemma canChat_derived_fetchUserStatus:
  "0 < FREE_CHAT_LIMIT \<Longrightarrow> fetchUserStatus_sets response s \<Longrightarrow>
   canChat_derived (chatLimits (fetchUserStatus FREE_CHAT_LIMIT response s))"
  by (auto simp: fetchUserStatus_sets_def fetchUserStatus_def Let_def canChat_derived_logout
      canChat_derived_set split: fetch_result.splits option.splits if_splits)

lemma chatLimits_fetchUserStatus_kept:
  "\<not> fetchUserStatus_sets response s \<Longrightarrow>
   chatLimits (fetchUserStatus FREE_CHAT_LIMIT response s) = chatLimits s"
  by (auto simp: fetchUserStatus_sets_def fetchUserStatus_def
      split: fetch_result.splits option.splits if_splits)

lemma canChat_derived_checkChatLimits:
  "checkChatLimits_sets response s \<Longrightarrow>
   canChat_derived (chatLimits (fst (checkChatLimits FREE_CHAT_LIMIT response s)))"
  by (auto simp: checkChatLimits_sets_def checkChatLimits_def canChat_derived_def
      split: fetch_result.splits option.splits)

lemma checkChatLimits_kept:
  "\<not> checkChatLimits_sets response s \<Longrightarrow>
   checkChatLimits FREE_CHAT_LIMIT response s = (s, False)"
  by (auto simp: checkChatLimits_sets_def checkChatLimits_def
      split: fetch_result.splits option.splits)

text \<open>
  C1. Every operation of the hook that sets the \<open>chatLimits\<close> snapshot leaves it with
  \<open>canChat\<close> equal to \<open>remaining > 0 || remaining === -1\<close>: the initial state, the
  login handler (on its success path and on every other outcome, which logs out),
  \<open>fetchUserStatus\<close> and \<open>checkChatLimits\<close> whenever they set the snapshot (and
  otherwise they leave it as it was), \<open>updateChatLimits\<close> for every pair of arguments,
  and \<open>logout\<close>. The initial state and \<open>logout\<close> store \<open>canChat: true\<close> beside
  \<open>LIMITS.FREE_CHAT_LIMIT\<close>, a constant defined outside the sources, which the
  specification describes as a finite free allowance: it is taken to be positive.
\<close>

theorem chatLimits_canChat_derived:
  assumes "0 < FREE_CHAT_LIMIT"
  shows "canChat_derived (chatLimits (useAuth_init FREE_CHAT_LIMIT ls))
       \<and> canChat_derived (chatLimits (login_success data s))
       \<and> canChat_derived (chatLimits (handleGoogleLogin FREE_CHAT_LIMIT response s))
       \<and> (if fetchUserStatus_sets response s
          then canChat_derived (chatLimits (fetchUserStatus FREE_CHAT_LIMIT response s))
          else chatLimits (fetchUserStatus FREE_CHAT_LIMIT response s) = chatLimits s)
       \<and> (if checkChatLimits_sets response s
          then canChat_derived (chatLimits (fst (checkChatLimits FREE_CHAT_LIMIT response s)))
          else chatLimits (fst (checkChatLimits FREE_CHAT_LIMIT response s)) = chatLimits s)
       \<and> canChat_derived (chatLimits (updateChatLimits newRemaining newUsed s))
       \<and> canChat_derived (chatLimits (logout FREE_CHAT_LIMIT s))"
proof -
  have init: "canChat_derived (chatLimits (useAuth_init FREE_CHAT_LIMIT ls))"
    using assms by (simp add: canChat_derived_def useAuth_init_def js_gt_def)
  have upd: "canChat_derived (chatLimits (updateChatLimits newRemaining newUsed s))"
    by (simp add: canChat_derived_def updateChatLimits_def)
  have fus: "if fetchUserStatus_sets response s
          then canChat_derived (chatLimits (fetchUserStatus FREE_CHAT_LIMIT response s))
          else chatLimits (fetchUserStatus FREE_CHAT_LIMIT response s) = chatLimits s"
    using assms by (simp add: canChat_derived_fetchUserStatus chatLimits_fetchUserStatus_kept)
  have ccl: "if checkChatLimits_sets response s
          then canChat_derived (chatLimits (fst (checkChatLimits FREE_CHAT_LIMIT response s)))
          else chatLimits (fst (checkChatLimits FREE_CHAT_LIMIT response s)) = chatLimits s"
    by (simp add: canChat_derived_checkChatLimits checkChatLimits_kept)
  from init upd fus ccl assms show ?thesis
    by (simp only: canChat_derived_login_success canChat_derived_handleGoogleLogin
        canChat_derived_logout simp_thms)
qed

theorem chatLimits_canChat_derived_witness:
  "(0::int) < 10
   \<and> canChat_derived (chatLimits (useAuth_init 10 \<lparr>auth_token = None, user_info = None\<rparr>))
   \<and> canChat_derived (chatLimits (login_success sample_data sample_session))
   \<and> canChat_derived (chatLimits (handleGoogleLogin 10 (Response 200 (Some sample_data)) sample_session))
   \<and> fetchUserStatus_sets (Response 200 (Some sample_data)) sample_session
   \<and> canChat_derived (chatLimits (fetchUserStatus 10 (Response 200 (Some sample_data)) sample_session))
   \<and> checkChatLimits_sets (Response 200 (Some sample_data)) sample_session
   \<and> canChat_derived (chatLimits (fst (checkChatLimits 10 (Response 200 (Some sample_data)) sample_session)))
   \<and> chatLimits (fst (checkChatLimits 10 (Response 200 (Some sample_data)) sample_session))
       = \<lparr>remaining = JNum 3, used = JNum 7, canChat = True\<rparr>
   \<and> canChat_derived (chatLimits (updateChatLimits (JNum 0) (JNum 10) sample_session))
   \<and> canChat (chatLimits (updateChatLimits (JNum 0) (JNum 10) sample_session)) = False
   \<and> canChat_derived (chatLimits (logout 10 sample_session))"
proof -
  have pos: "(0::int) < 10" by simp
  have sets1: "fetchUserStatus_sets (Response 200 (Some sample_data)) sample_session"
    by (simp add: fetchUserStatus_sets_def has_token_def sample_session_def ok_def)
  have sets2: "checkChatLimits_sets (Response 200 (Some sample_data)) sample_session"
    by (simp add: checkChatLimits_sets_def has_token_def sample_session_def ok_def)
  have val: "chatLimits (fst (checkChatLimits 10 (Response 200 (Some sample_data)) sample_session))
       = \<lparr>remaining = JNum 3, used = JNum 7, canChat = True\<rparr>"
    by (simp add: checkChatLimits_def has_token_def sample_session_def sample_data_def ok_def
        js_minus_def js_gt_def js_strict_eq_def)
  have upd: "canChat (chatLimits (updateChatLimits (JNum 0) (JNum 10) sample_session)) = False"
    by (simp add: updateChatLimits_def js_gt_def js_strict_eq_def)
  from chatLimits_canChat_derived [OF pos, of "\<lparr>auth_token = None, user_info = None\<rparr>"
      sample_data sample_session "Response 200 (Some sample_data)" "JNum 0" "JNum 10"]
    pos sets1 sets2 val upd
  show ?thesis by simp
qed

text \<open>
  C2, as stated, asks that \<open>checkChatLimits\<close> stores a \<open>used\<close> or \<open>chat_count\<close>
  value supplied by the backend. It does not: with a free limit of 10, a reply that
  carries \<open>remaining_chats = 3\<close> and \<open>chat_count = 1\<close> leaves \<open>used = 7\<close>.
\<close>

theorem checkChatLimits_supplied_count_not_stored:
  "chat_count sample_data = JNum 1
   \<and> has_token sample_session \<and> ok 200
   \<and> used (chatLimits (fst (checkChatLimits 10 (Response 200 (Some sample_data)) sample_session))) = JNum 7
   \<and> used (chatLimits (fst (checkChatLimits 10 (Response 200 (Some sample_data)) sample_session)))
       \<noteq> chat_count sample_data"
  by (simp add: checkChatLimits_def has_token_def sample_session_def sample_data_def ok_def
      js_minus_def)

text \<open>
  C2, amended. On an ok reply \<open>checkChatLimits\<close> always stores
  \<open>used = FREE_CHAT_LIMIT - remaining_chats\<close>; the \<open>chat_count\<close> and \<open>used\<close> fields of
  the reply are not read, so changing them changes neither the stored snapshot nor the
  returned boolean.
\<close>

theorem checkChatLimits_used_recomputed:
  assumes "has_token s" and "ok st"
  shows "used (chatLimits (fst (checkChatLimits FREE_CHAT_LIMIT (Response st (Some data)) s)))
           = js_minus FREE_CHAT_LIMIT (remaining_chats data)
       \<and> checkChatLimits FREE_CHAT_LIMIT (Response st (Some (data\<lparr>chat_count := c, data_used := u\<rparr>))) s
           = checkChatLimits FREE_CHAT_LIMIT (Response st (Some data)) s"
  using assms by (simp add: checkChatLimits_def)

theorem checkChatLimits_used_recomputed_witness:
  "has_token sample_session \<and> ok 200
   \<and> used (chatLimits (fst (checkChatLimits 10 (Response 200 (Some sample_data)) sample_session)))
       = js_minus 10 (remaining_chats sample_data)
   \<and> js_minus 10 (remaining_chats sample_data) = JNum 7
   \<and> checkChatLimits 10
        (Response 200 (Some (sample_data\<lparr>chat_count := JNum 5, data_used := JNum 5\<rparr>))) sample_session
       = checkChatLimits 10 (Response 200 (Some sample_data)) sample_session"
proof -
  have tok: "has_token sample_session"
    by (simp add: has_token_def sample_session_def)
  have st: "ok 200"
    by (simp add: ok_def)
  have seven: "js_minus 10 (remaining_chats sample_data) = JNum 7"
    by (simp add: js_minus_def sample_data_def)
  from checkChatLimits_used_recomputed [OF tok st, of 10 sample_data "JNum 5" "JNum 5"] tok st seven
  show ?thesis by simp
qed

text \<open>
  C10. \<open>checkChatLimits\<close> never logs out. On every failure (a rejected request, or a
  response that is not ok, 401 included) it returns false and the state is the one it
  started from. Whatever the outcome, only \<open>chatLimits\<close> can differ afterwards, and it
  differs only after an ok response whose body was read.
\<close>

theorem checkChatLimits_never_logs_out:
  "checkChatLimits FREE_CHAT_LIMIT NetworkError s = (s, False)
   \<and> checkChatLimits FREE_CHAT_LIMIT (Response 401 body) s = (s, False)
   \<and> (\<not> ok st \<longrightarrow> checkChatLimits FREE_CHAT_LIMIT (Response st body) s = (s, False))
   \<and> fst (checkChatLimits FREE_CHAT_LIMIT response s)
       = s\<lparr>chatLimits := chatLimits (fst (checkChatLimits FREE_CHAT_LIMIT response s))\<rparr>
   \<and> (chatLimits (fst (checkChatLimits FREE_CHAT_LIMIT response s)) \<noteq> chatLimits s \<longrightarrow>
        has_token s \<and> (\<exists>st' data. response = Response st' (Some data) \<and> ok st'))"
proof -
  have unauth: "\<not> ok 401"
    by (simp add: ok_def)
  have frame: "fst (checkChatLimits FREE_CHAT_LIMIT response s)
       = s\<lparr>chatLimits := chatLimits (fst (checkChatLimits FREE_CHAT_LIMIT response s))\<rparr>"
    by (simp add: checkChatLimits_def split: fetch_result.split option.split)
  have changed: "chatLimits (fst (checkChatLimits FREE_CHAT_LIMIT response s)) \<noteq> chatLimits s \<longrightarrow>
        has_token s \<and> (\<exists>st' data. response = Response st' (Some data) \<and> ok st')"
    by (simp add: checkChatLimits_def split: fetch_result.split option.split)
  have failed: "\<not> ok st' \<longrightarrow> checkChatLimits FREE_CHAT_LIMIT (Response st' body) s = (s, False)" for st'
    by (simp add: checkChatLimits_def)
  have net: "checkChatLimits FREE_CHAT_LIMIT NetworkError s = (s, False)"
    by (simp add: checkChatLimits_def)
  from net failed [of 401] failed [of st] unauth frame changed show ?thesis
    by blast
qed

theorem checkChatLimits_never_logs_out_witness:
  "\<not> ok 500
   \<and> checkChatLimits 10 (Response 500 (Some sample_data)) sample_session = (sample_session, False)
   \<and> checkChatLimits 10 (Response 401 None) sample_session = (sample_session, False)
   \<and> token (fst (checkChatLimits 10 (Response 401 None) sample_session)) = Some ''tok-1''
   \<and> chatLimits (fst (checkChatLimits 10 (Response 200 (Some sample_data)) sample_session))
       \<noteq> chatLimits sample_session
   \<and> has_token sample_session"
proof -
  have err: "\<not> ok 500"
    by (simp add: ok_def)
  have moved: "chatLimits (fst (checkChatLimits 10 (Response 200 (Some sample_data)) sample_session))
       \<noteq> chatLimits sample_session"
    by (simp add: checkChatLimits_def has_token_def sample_session_def sample_data_def ok_def)
  have tok: "token sample_session = Some ''tok-1''"
    by (simp add: sample_session_def)
  from checkChatLimits_never_logs_out [of 10 sample_session "Some sample_data" 500
      "Response 200 (Some sample_data)"]
    checkChatLimits_never_logs_out [of 10 sample_session None 500 "Response 200 (Some sample_data)"]
    err moved tok
  show ?thesis by simp
qed

text \<open>
  C8, as stated, asks that every response other than a 401 replaces \<open>chatLimits\<close>
  with the server's snapshot. A response with status 500 does not: the state stays
  as it was, here with \<open>remaining = 4\<close> although the reply reports 3.
\<close>

theorem fetchUserStatus_server_error_keeps_snapshot:
  "has_token sample_session
   \<and> remaining_chats sample_data = JNum 3
   \<and> fetchUserStatus 10 (Response 500 (Some sample_data)) sample_session = sample_session
   \<and> remaining (chatLimits (fetchUserStatus 10 (Response 500 (Some sample_data)) sample_session)) = JNum 4"
  by (simp add: fetchUserStatus_def has_token_def sample_session_def sample_data_def ok_def)

text \<open>
  C8, amended. Called with a stored token, \<open>fetchUserStatus\<close>
  \<^item> on a 401 response forces logout: token, user and the authenticated flag are
    cleared, \<open>chatLimits\<close> goes back to the free default and both persisted entries
    are removed;
  \<^item> on an ok response whose body is read replaces \<open>chatLimits\<close> with the snapshot
    of the reply (\<open>remaining_chats ?? remaining ?? -1\<close>, \<open>chat_count ?? used ?? 0\<close>,
    \<open>canChat\<close> derived from the first), and replaces the profile, in memory and in
    storage, when the reply carries one; token and authenticated flag stay;
  \<^item> on any other status, on a rejected request and on a body that cannot be read
    leaves the state as it was.
\<close>

theorem fetchUserStatus_outcomes:
  assumes "has_token s"
  shows "fetchUserStatus FREE_CHAT_LIMIT (Response 401 body) s = logout FREE_CHAT_LIMIT s
       \<and> token (logout FREE_CHAT_LIMIT s) = None
       \<and> user (logout FREE_CHAT_LIMIT s) = None
       \<and> \<not> isAuthenticated (logout FREE_CHAT_LIMIT s)
       \<and> localStorage (logout FREE_CHAT_LIMIT s) = \<lparr>auth_token = None, user_info = None\<rparr>
       \<and> (ok st \<longrightarrow>
            chatLimits (fetchUserStatus FREE_CHAT_LIMIT (Response st (Some data)) s)
              = \<lparr>remaining = js_nullish (js_nullish (remaining_chats data) (data_remaining data)) (JNum (- 1)),
                 used = js_nullish (js_nullish (chat_count data) (data_used data)) (JNum 0),
                 canChat = (js_gt (js_nullish (js_nullish (remaining_chats data) (data_remaining data))
                                     (JNum (- 1))) 0
                            \<or> js_strict_eq (js_nullish (js_nullish (remaining_chats data) (data_remaining data))
                                              (JNum (- 1))) (- 1))\<rparr>
            \<and> user (fetchUserStatus FREE_CHAT_LIMIT (Response st (Some data)) s)
                = (case data_user data of None \<Rightarrow> user s | Some u \<Rightarrow> Some u)
            \<and> user_info (localStorage (fetchUserStatus FREE_CHAT_LIMIT (Response st (Some data)) s))
                = (case data_user data of None \<Rightarrow> user_info (localStorage s) | Some u \<Rightarrow> Some u)
            \<and> token (fetchUserStatus FREE_CHAT_LIMIT (Response st (Some data)) s) = token s
            \<and> isAuthenticated (fetchUserStatus FREE_CHAT_LIMIT (Response st (Some data)) s)
                = isAuthenticated s
            \<and> fetchUserStatus FREE_CHAT_LIMIT (Response st None) s = s)
       \<and> (\<not> ok st \<and> st \<noteq> 401 \<longrightarrow> fetchUserStatus FREE_CHAT_LIMIT (Response st body) s = s)
       \<and> fetchUserStatus FREE_CHAT_LIMIT NetworkError s = s"
proof -
  have unauth: "\<not> ok 401"
    by (simp add: ok_def)
  have forced: "fetchUserStatus FREE_CHAT_LIMIT (Response 401 body) s = logout FREE_CHAT_LIMIT s"
    using assms unauth by (simp add: fetchUserStatus_def)
  have cleared: "token (logout FREE_CHAT_LIMIT s) = None \<and> user (logout FREE_CHAT_LIMIT s) = None
       \<and> \<not> isAuthenticated (logout FREE_CHAT_LIMIT s)
       \<and> localStorage (logout FREE_CHAT_LIMIT s) = \<lparr>auth_token = None, user_info = None\<rparr>"
    by (simp add: logout_def)
  have replaced: "ok st \<longrightarrow>
            chatLimits (fetchUserStatus FREE_CHAT_LIMIT (Response st (Some data)) s)
              = \<lparr>remaining = js_nullish (js_nullish (remaining_chats data) (data_remaining data)) (JNum (- 1)),
                 used = js_nullish (js_nullish (chat_count data) (data_used data)) (JNum 0),
                 canChat = (js_gt (js_nullish (js_nullish (remaining_chats data) (data_remaining data))
                                     (JNum (- 1))) 0
                            \<or> js_strict_eq (js_nullish (js_nullish (remaining_chats data) (data_remaining data))
                                              (JNum (- 1))) (- 1))\<rparr>
            \<and> user (fetchUserStatus FREE_CHAT_LIMIT (Response st (Some data)) s)
                = (case data_user data of None \<Rightarrow> user s | Some u \<Rightarrow> Some u)
            \<and> user_info (localStorage (fetchUserStatus FREE_CHAT_LIMIT (Response st (Some data)) s))
                = (case data_user data of None \<Rightarrow> user_info (localStorage s) | Some u \<Rightarrow> Some u)
            \<and> token (fetchUserStatus FREE_CHAT_LIMIT (Response st (Some data)) s) = token s
            \<and> isAuthenticated (fetchUserStatus FREE_CHAT_LIMIT (Response st (Some data)) s)
                = isAuthenticated s
            \<and> fetchUserStatus FREE_CHAT_LIMIT (Response st None) s = s"
    using assms by (simp add: fetchUserStatus_def Let_def split: option.split)
  have stale: "\<not> ok st \<and> st \<noteq> 401 \<longrightarrow> fetchUserStatus FREE_CHAT_LIMIT (Response st body) s = s"
    using assms by (simp add: fetchUserStatus_def)
  have net: "fetchUserStatus FREE_CHAT_LIMIT NetworkError s = s"
    by (simp add: fetchUserStatus_def)
  from forced cleared replaced stale net show ?thesis
    by (simp only: simp_thms)
qed

theorem fetchUserStatus_outcomes_witness:
  "has_token sample_session
   \<and> fetchUserStatus 10 (Response 401 None) sample_session = logout 10 sample_session
   \<and> localStorage (fetchUserStatus 10 (Response 401 None) sample_session)
       = \<lparr>auth_token = None, user_info = None\<rparr>
   \<and> ok 200
   \<and> chatLimits (fetchUserStatus 10 (Response 200 (Some sample_data)) sample_session)
       = \<lparr>remaining = JNum 3, used = JNum 1, canChat = True\<rparr>
   \<and> user (fetchUserStatus 10 (Response 200 (Some sample_data)) sample_session) = Some sample_profile
   \<and> \<not> ok 503 \<and> (503::nat) \<noteq> 401
   \<and> fetchUserStatus 10 (Response 503 None) sample_session = sample_session"
proof -
  have tok: "has_token sample_session"
    by (simp add: has_token_def sample_session_def)
  have good: "ok 200" and bad: "\<not> ok 503"
    by (simp_all add: ok_def)
  have snap: "js_nullish (js_nullish (remaining_chats sample_data) (data_remaining sample_data)) (JNum (- 1))
                = JNum 3
              \<and> js_nullish (js_nullish (chat_count sample_data) (data_used sample_data)) (JNum 0) = JNum 1
              \<and> data_user sample_data = Some sample_profile"
    by (simp add: sample_data_def js_nullish_def)
  from fetchUserStatus_outcomes [OF tok, of 10 None 200 sample_data]
    fetchUserStatus_outcomes [OF tok, of 10 None 503 sample_data]
    tok good bad snap
  show ?thesis by (simp add: js_gt_def)
qed

section \<open>Properties of the library browser\<close>

text \<open>
  C4. A click on a domain with \<open>chatLimits.remaining\<close> equal to \<open>-1\<close> selects the
  domain and opens the download confirmation, which is then rendered, and does not call
  for the upgrade prompt. With any other \<open>remaining\<close> (0 in particular), or with no
  \<open>chatLimits\<close> at all, the click calls for the upgrade prompt and nothing else, and
  the download confirmation is rendered in no state of the component.
\<close>

theorem handleDomainClick_by_entitlement:
  "(remaining c = JNum (- 1) \<longrightarrow>
      handleDomainClick (Some c) d s = (s\<lparr>selectedDomain := Some d, downloadModalOpen := True\<rparr>, [])
      \<and> DownloadModal_rendered (Some c) (fst (handleDomainClick (Some c) d s))
      \<and> OpenUpgradeModal \<notin> set (snd (handleDomainClick (Some c) d s)))
   \<and> (remaining c \<noteq> JNum (- 1) \<longrightarrow>
      handleDomainClick (Some c) d s = (s, [OpenUpgradeModal])
      \<and> \<not> DownloadModal_rendered (Some c) s')
   \<and> handleDomainClick None d s = (s, [OpenUpgradeModal])
   \<and> \<not> DownloadModal_rendered None s'"
  by (simp add: handleDomainClick_def DownloadModal_rendered_def isPremium_def js_strict_eq_def)

theorem handleDomainClick_by_entitlement_witness:
  "remaining premium_limits = JNum (- 1)
   \<and> handleDomainClick (Some premium_limits) road_network sample_library
       = (sample_library\<lparr>selectedDomain := Some road_network, downloadModalOpen := True\<rparr>, [])
   \<and> DownloadModal_rendered (Some premium_limits)
        (fst (handleDomainClick (Some premium_limits) road_network sample_library))
   \<and> remaining exhausted_limits = JNum 0
   \<and> handleDomainClick (Some exhausted_limits) road_network sample_library
       = (sample_library, [OpenUpgradeModal])
   \<and> \<not> DownloadModal_rendered (Some exhausted_limits)
          (sample_library\<lparr>selectedDomain := Some road_network, downloadModalOpen := True\<rparr>)"
proof -
  have prem: "remaining premium_limits = JNum (- 1)"
    by (simp add: premium_limits_def)
  have exh: "remaining exhausted_limits = JNum 0"
    by (simp add: exhausted_limits_def)
  have other: "remaining exhausted_limits \<noteq> JNum (- 1)"
    by (simp add: exhausted_limits_def)
  from handleDomainClick_by_entitlement [of premium_limits road_network sample_library sample_library]
    prem
  have opened: "handleDomainClick (Some premium_limits) road_network sample_library
       = (sample_library\<lparr>selectedDomain := Some road_network, downloadModalOpen := True\<rparr>, [])
     \<and> DownloadModal_rendered (Some premium_limits)
          (fst (handleDomainClick (Some premium_limits) road_network sample_library))"
    by blast
  from handleDomainClick_by_entitlement [of exhausted_limits road_network sample_library
      "sample_library\<lparr>selectedDomain := Some road_network, downloadModalOpen := True\<rparr>"]
    other
  have refused: "handleDomainClick (Some exhausted_limits) road_network sample_library
       = (sample_library, [OpenUpgradeModal])
     \<and> \<not> DownloadModal_rendered (Some exhausted_limits)
          (sample_library\<lparr>selectedDomain := Some road_network, downloadModalOpen := True\<rparr>)"
    by blast
  from opened refused prem exh show ?thesis
    by blast
qed

text \<open>
  C9. When \<open>fetchDomains\<close> fails, by a rejected request or by a response that is not
  ok, the catalog, the category list and the filtered list are the ones loaded
  before; the only effect is one error line on the console, no alert; the loading flag
  is cleared. The same holds when the body of an ok response cannot be read.
\<close>

theorem fetchDomains_failure_keeps_catalog:
  "fetchDomains NetworkError s = (s\<lparr>loading := False\<rparr>, [ConsoleError ''Error fetching domains:''])
   \<and> (\<not> ok st \<longrightarrow>
        fetchDomains (Response st body) s = (s\<lparr>loading := False\<rparr>, [ConsoleError ''Error fetching domains:'']))
   \<and> fetchDomains (Response st None) s = (s\<lparr>loading := False\<rparr>, [ConsoleError ''Error fetching domains:''])
   \<and> domains (s\<lparr>loading := False\<rparr>) = domains s
   \<and> categories (s\<lparr>loading := False\<rparr>) = categories s
   \<and> filteredDomains (s\<lparr>loading := False\<rparr>) = filteredDomains s"
  by (simp add: fetchDomains_def Let_def)

theorem fetchDomains_failure_keeps_catalog_witness:
  "\<not> ok 500
   \<and> fetchDomains (Response 500 (Some \<lparr>data_domains = [], data_categories = []\<rparr>)) sample_library
       = (sample_library, [ConsoleError ''Error fetching domains:''])
   \<and> domains (fst (fetchDomains (Response 500 (Some \<lparr>data_domains = [], data_categories = []\<rparr>))
                      sample_library)) = [health_census, road_network]
   \<and> fetchDomains NetworkError sample_library
       = (sample_library, [ConsoleError ''Error fetching domains:''])"
proof -
  have err: "\<not> ok 500"
    by (simp add: ok_def)
  have idle: "sample_library\<lparr>loading := False\<rparr> = sample_library"
    by (simp add: sample_library_def)
  have cat: "domains sample_library = [health_census, road_network]"
    by (simp add: sample_library_def)
  from fetchDomains_failure_keeps_catalog
      [of sample_library 500 "Some \<lparr>data_domains = [], data_categories = []\<rparr>"]
    err idle cat
  show ?thesis by simp
qed

text \<open>
  C3, as stated, asks for a tracking call whatever the outcome of the download. With
  a premium user and a selected domain, none is issued when the folder link is missing,
  when the user cancels the confirmation, or when the new browsing context is blocked.
\<close>

theorem handleDownload_no_tracking_on_failure:
  "snd (handleDownload (Some premium_limits) ''zip'' True OpenedWindow (Response 200 None)
          (sample_library\<lparr>selectedDomain := Some health_census, downloadModalOpen := True\<rparr>))
     = [Alert ''Google Drive folder not found for Health Census'']
   \<and> snd (handleDownload (Some premium_limits) ''zip'' False OpenedWindow (Response 200 None)
          (sample_library\<lparr>selectedDomain := Some road_network, downloadModalOpen := True\<rparr>))
     = [Confirm (confirm_message ''zip'' ''Road Network'')]
   \<and> TrackDownloadPost 2 ''zip''
       \<notin> set (snd (handleDownload (Some premium_limits) ''zip'' True NullWindow (Response 200 None)
                     (sample_library\<lparr>selectedDomain := Some road_network, downloadModalOpen := True\<rparr>)))"
  by (simp add: handleDownload_def isPremium_def js_strict_eq_def premium_limits_def
      sample_library_def health_census_def road_network_def)

lemma TrackDownloadPost_in_trackDownload:
  "TrackDownloadPost i t \<in> set (trackDownload domainId type response) \<longleftrightarrow> i = domainId \<and> t = type"
  by (auto simp: trackDownload_def split: fetch_result.splits)

text \<open>
  C3, amended. With a domain selected, \<open>handleDownload\<close> issues a tracking call
  exactly when the open succeeds: the user is premium, the folder link is present, the
  user confirms and \<open>window.open\<close> gives back an open window. The call then records
  the id of the selected domain and the download type. In every other outcome (link
  missing, context blocked, opening throws, confirmation cancelled, user not premium) no
  tracking call is issued.
\<close>

theorem handleDownload_tracks_after_open:
  assumes "selectedDomain s = Some sel"
  shows "TrackDownloadPost i t
           \<in> set (snd (handleDownload chatLimits' type confirmed newWindow trackResponse s))
         \<longleftrightarrow> i = domain_id sel \<and> t = type \<and> isPremium chatLimits'
             \<and> (\<exists>folderId. gdrive_folder_id sel = Some folderId \<and> folderId \<noteq> [])
             \<and> confirmed \<and> newWindow = OpenedWindow"
proof (cases "isPremium chatLimits' \<and> (\<exists>folderId. gdrive_folder_id sel = Some folderId \<and> folderId \<noteq> [])
               \<and> confirmed \<and> newWindow = OpenedWindow")
  case True
  then obtain folderId where "gdrive_folder_id sel = Some folderId" and "folderId \<noteq> []"
    by blast
  with True assms show ?thesis
    by (simp add: handleDownload_def Let_def TrackDownloadPost_in_trackDownload)
next
  case False
  with assms have "TrackDownloadPost i t
           \<notin> set (snd (handleDownload chatLimits' type confirmed newWindow trackResponse s))"
    by (cases newWindow)
      (auto simp: handleDownload_def Let_def split: option.splits)
  with False show ?thesis
    by blast
qed

theorem handleDownload_tracks_after_open_witness:
  "selectedDomain (sample_library\<lparr>selectedDomain := Some road_network, downloadModalOpen := True\<rparr>)
     = Some road_network
   \<and> isPremium (Some premium_limits)
   \<and> gdrive_folder_id road_network = Some ''folder-2''
   \<and> TrackDownloadPost 2 ''zip''
       \<in> set (snd (handleDownload (Some premium_limits) ''zip'' True OpenedWindow NetworkError
                     (sample_library\<lparr>selectedDomain := Some road_network, downloadModalOpen := True\<rparr>)))"
proof -
  have sel: "selectedDomain (sample_library\<lparr>selectedDomain := Some road_network, downloadModalOpen := True\<rparr>)
     = Some road_network"
    by simp
  have prem: "isPremium (Some premium_limits)"
    by (simp add: isPremium_def premium_limits_def js_strict_eq_def)
  have folder: "gdrive_folder_id road_network = Some ''folder-2''" and ident: "domain_id road_network = 2"
    by (simp_all add: road_network_def)
  from handleDownload_tracks_after_open [OF sel, of 2 "''zip''" "Some premium_limits" "''zip''" True
      OpenedWindow NetworkError]
    sel prem folder ident
  show ?thesis by simp
qed

lemma js_includes_sublist: "js_includes s t = sublist t s"
  by (induction s) (auto simp: sublist_Cons_right)

lemma ascii_lower_char_code:
  "(of_char (ascii_lower_char c) :: nat) = (if is_upper c then of_char c + 32 else of_char c)"
  by (cases c) (simp add: ascii_lower_char_def is_upper_def)

lemma same_letter_lower: "same_letter c d \<longleftrightarrow> ascii_lower_char c = ascii_lower_char d"
proof -
  have "ascii_lower_char c = ascii_lower_char d
        \<longleftrightarrow> (of_char (ascii_lower_char c) :: nat) = of_char (ascii_lower_char d)"
    by simp
  also have "\<dots> \<longleftrightarrow> same_letter c d"
    unfolding ascii_lower_char_code same_letter_def
    by (auto simp: is_upper_def)
  finally show ?thesis by simp
qed

lemma same_ignoring_case_lower:
  "same_ignoring_case a b \<longleftrightarrow> ascii_toLowerCase a = ascii_toLowerCase b"
  by (auto simp: same_ignoring_case_def ascii_toLowerCase_def same_letter_lower
      list_all2_conv_all_nth list_eq_iff_nth_eq)

lemma contains_ignoring_case_lower:
  "contains_ignoring_case s t \<longleftrightarrow> sublist (ascii_toLowerCase t) (ascii_toLowerCase s)"
proof
  assume "contains_ignoring_case s t"
  then obtain b p a where "s = b @ p @ a" and "ascii_toLowerCase p = ascii_toLowerCase t"
    by (auto simp: contains_ignoring_case_def same_ignoring_case_lower)
  then have "ascii_toLowerCase s = ascii_toLowerCase b @ ascii_toLowerCase t @ ascii_toLowerCase a"
    by (simp add: ascii_toLowerCase_def)
  then show "sublist (ascii_toLowerCase t) (ascii_toLowerCase s)"
    unfolding sublist_def by blast
next
  assume "sublist (ascii_toLowerCase t) (ascii_toLowerCase s)"
  then obtain ps ss where "map ascii_lower_char s = ps @ map ascii_lower_char t @ ss"
    unfolding ascii_toLowerCase_def sublist_def by blast
  then obtain b r where s: "s = b @ r" and r: "map ascii_lower_char t @ ss = map ascii_lower_char r"
    unfolding map_eq_append_conv by blast
  from r obtain p a where "r = p @ a" and "map ascii_lower_char p = map ascii_lower_char t"
    unfolding append_eq_map_conv by metis
  with s show "contains_ignoring_case s t"
    by (auto simp: contains_ignoring_case_def same_ignoring_case_lower ascii_toLowerCase_def)
qed

lemma filtered_lowered:
  "filtered toLowerCase doms term cat = filter (lowered_matches toLowerCase term cat) doms"
proof -
  have "filter (lowered_matches toLowerCase term cat) doms =
        filter (\<lambda>d. term = [] \<or> sublist (toLowerCase term) (toLowerCase (name d))
                      \<or> sublist (toLowerCase term) (toLowerCase (description d)))
          (filter (\<lambda>d. cat = ''All'' \<or> category d = cat) doms)"
    by (simp add: lowered_matches_def [abs_def] conj_commute)
  also have "filter (\<lambda>d. cat = ''All'' \<or> category d = cat) doms
        = (if cat \<noteq> ''All'' then filter (\<lambda>d. category d = cat) doms else doms)"
    by simp
  also have "filter (\<lambda>d. term = [] \<or> sublist (toLowerCase term) (toLowerCase (name d))
                      \<or> sublist (toLowerCase term) (toLowerCase (description d)))
          (if cat \<noteq> ''All'' then filter (\<lambda>d. category d = cat) doms else doms)
        = filtered toLowerCase doms term cat"
    by (cases "term = []") (simp_all add: filtered_def Let_def js_includes_sublist)
  finally show ?thesis by simp
qed

lemma lowered_matches_ascii:
  assumes "lowers_ascii toLowerCase" and "is_ascii term"
    and "is_ascii (name d)" and "is_ascii (description d)"
  shows "lowered_matches toLowerCase term cat d = spec_matches term cat d"
proof -
  from assms have low: "toLowerCase term = ascii_toLowerCase term"
      "toLowerCase (name d) = ascii_toLowerCase (name d)"
      "toLowerCase (description d) = ascii_toLowerCase (description d)"
    by (simp_all add: lowers_ascii_def)
  have empty: "term = [] \<Longrightarrow> contains_ignoring_case (name d) term"
    by (simp add: contains_ignoring_case_lower ascii_toLowerCase_def)
  show ?thesis
    unfolding lowered_matches_def spec_matches_def low contains_ignoring_case_lower [symmetric]
    using empty by blast
qed

lemma filtered_ascii:
  assumes "lowers_ascii toLowerCase" and "is_ascii term"
    and "\<forall>d \<in> set doms. is_ascii (name d) \<and> is_ascii (description d)"
  shows "filtered toLowerCase doms term cat = filter (spec_matches term cat) doms"
  unfolding filtered_lowered
  using assms by (intro filter_cong refl) (simp add: lowered_matches_ascii)

text \<open>
  C5, as stated, asks that the filter returns every entry whose name contains the
  search term up to the case of letters. The catalog entry named by the Greek capitals
  Delta, Omicron, Sigma, Eta contains the search term Delta, Omicron, Sigma letter for
  letter, and the category selection is \<open>All\<close>; the filter returns nothing, because the
  lower-cased term ends in a final sigma and the lower-cased name has none. The
  function standing in for the built-in folds ASCII text as the built-in does.
\<close>

theorem filtered_drops_literal_match:
  "sublist dos (name dosi_entry)
   \<and> contains_ignoring_case (name dosi_entry) dos
   \<and> spec_matches dos ''All'' dosi_entry
   \<and> toLowerCase_sample (name dosi_entry) = dosi_lowered
   \<and> toLowerCase_sample dos = dos_lowered
   \<and> lowers_ascii toLowerCase_sample
   \<and> filtered toLowerCase_sample [dosi_entry] dos ''All'' = []"
proof -
  have greek: "\<not> is_ascii dosi" "\<not> is_ascii dos"
    by (simp_all add: is_ascii_def dosi_def dos_def)
  then have plain: "lowers_ascii toLowerCase_sample"
    by (auto simp: lowers_ascii_def toLowerCase_sample_def)
  have split: "dosi = [] @ dos @ [CHR 0xCE, CHR 0x97]"
    by (simp add: dosi_def dos_def)
  have same: "same_ignoring_case dos dos"
    by (simp add: same_ignoring_case_def same_letter_def list_all2_same)
  from split same have inside: "contains_ignoring_case dosi dos"
    unfolding contains_ignoring_case_def by blast
  from split have literal: "sublist dos dosi"
    unfolding sublist_def by blast
  have gone: "filtered toLowerCase_sample [dosi_entry] dos ''All'' = []"
    by (simp add: filtered_def dosi_entry_def toLowerCase_sample_def dosi_def dos_def
        dosi_lowered_def dos_lowered_def ascii_toLowerCase_def ascii_lower_char_def)
  have vals: "toLowerCase_sample dosi = dosi_lowered \<and> toLowerCase_sample dos = dos_lowered"
    by (simp add: toLowerCase_sample_def dosi_def dos_def)
  from inside literal gone vals plain show ?thesis
    by (simp add: spec_matches_def dosi_entry_def)
qed

text \<open>
  C5, amended. \<open>filterDomains\<close> computes its result from the catalog, the search term
  and the selected category alone, and changes nothing but the filtered list. The
  result holds, in catalog order, exactly the entries for which the search term is
  empty or its lower-cased form is a substring of the lower-cased name or of the
  lower-cased description, and whose category is the selected one, every category
  passing under \<open>All\<close>; this for whatever the built-in \<open>toLowerCase\<close> returns. On
  ASCII text, where the built-in maps A to Z onto a to z and nothing else, these are
  exactly the entries whose name or description contains the search term as a
  substring up to the case of letters. On the catalog of Health Census (Social) and
  Road Network (Infrastructure), the term \<open>road\<close> under \<open>All\<close> keeps only Road
  Network, when Health Census comes with a description in ASCII that does not contain
  the term up to case.
\<close>

theorem filterDomains_keeps_lowered_matches:
  "filtered toLowerCase doms term cat = filter (lowered_matches toLowerCase term cat) doms
   \<and> filterDomains toLowerCase s
       = s\<lparr>filteredDomains :=
             filter (lowered_matches toLowerCase (searchTerm s) (selectedCategory s)) (domains s)\<rparr>
   \<and> (lowers_ascii toLowerCase \<and> is_ascii term
        \<and> (\<forall>d \<in> set doms. is_ascii (name d) \<and> is_ascii (description d))
      \<longrightarrow> filtered toLowerCase doms term cat = filter (spec_matches term cat) doms)
   \<and> (lowers_ascii toLowerCase
        \<and> name h = ''Health Census'' \<and> category h = ''Social''
        \<and> is_ascii (description h) \<and> \<not> contains_ignoring_case (description h) ''road''
        \<and> name r = ''Road Network'' \<and> category r = ''Infrastructure''
      \<longrightarrow> filtered toLowerCase [h, r] ''road'' ''All'' = [r])"
proof -
  have whole: "filterDomains toLowerCase s
       = s\<lparr>filteredDomains :=
             filter (lowered_matches toLowerCase (searchTerm s) (selectedCategory s)) (domains s)\<rparr>"
    by (simp add: filterDomains_def filtered_lowered)
  have ascii: "lowers_ascii toLowerCase \<and> is_ascii term
        \<and> (\<forall>d \<in> set doms. is_ascii (name d) \<and> is_ascii (description d))
      \<longrightarrow> filtered toLowerCase doms term cat = filter (spec_matches term cat) doms"
    using filtered_ascii by blast
  have scenario: "filtered toLowerCase [h, r] ''road'' ''All'' = [r]"
    if low: "lowers_ascii toLowerCase"
      and h: "name h = ''Health Census''" "is_ascii (description h)"
        "\<not> contains_ignoring_case (description h) ''road''"
      and r: "name r = ''Road Network''"
  proof -
    have plain: "is_ascii ''road''" "is_ascii ''Health Census''" "is_ascii ''Road Network''"
      by (simp_all add: is_ascii_def)
    from low plain have needle: "toLowerCase ''road'' = ''road''"
      and census: "toLowerCase ''Health Census'' = ''health census''"
      and network: "toLowerCase ''Road Network'' = ''road network''"
      by (simp_all add: lowers_ascii_def ascii_toLowerCase_def ascii_lower_char_def)
    from low h plain have descr: "\<not> sublist ''road'' (toLowerCase (description h))"
      by (simp add: lowers_ascii_def contains_ignoring_case_lower ascii_toLowerCase_def
          ascii_lower_char_def)
    have "\<not> lowered_matches toLowerCase ''road'' ''All'' h"
      using descr by (simp add: lowered_matches_def h needle census js_includes_sublist [symmetric])
    moreover have "lowered_matches toLowerCase ''road'' ''All'' r"
      by (simp add: lowered_matches_def r needle network js_includes_sublist [symmetric])
    ultimately show ?thesis
      by (simp add: filtered_lowered)
  qed
  have both: "lowers_ascii toLowerCase
        \<and> name h = ''Health Census'' \<and> category h = ''Social''
        \<and> is_ascii (description h) \<and> \<not> contains_ignoring_case (description h) ''road''
        \<and> name r = ''Road Network'' \<and> category r = ''Infrastructure''
      \<longrightarrow> filtered toLowerCase [h, r] ''road'' ''All'' = [r]"
    using scenario by blast
  have kept: "filtered toLowerCase doms term cat = filter (lowered_matches toLowerCase term cat) doms"
    by (rule filtered_lowered)
  from kept whole ascii both show ?thesis
    by blast
qed

theorem filterDomains_keeps_lowered_matches_witness:
  "lowers_ascii ascii_toLowerCase \<and> is_ascii ''ROAD''
   \<and> is_ascii (name health_census) \<and> is_ascii (description health_census)
   \<and> is_ascii (name road_network) \<and> is_ascii (description road_network)
   \<and> filtered ascii_toLowerCase [health_census, road_network] ''ROAD'' ''All''
       = filter (spec_matches ''ROAD'' ''All'') [health_census, road_network]
   \<and> filtered ascii_toLowerCase [health_census, road_network] ''ROAD'' ''All'' = [road_network]
   \<and> name health_census = ''Health Census'' \<and> category health_census = ''Social''
   \<and> is_ascii (description health_census)
   \<and> \<not> contains_ignoring_case (description health_census) ''road''
   \<and> name road_network = ''Road Network'' \<and> category road_network = ''Infrastructure''
   \<and> filtered ascii_toLowerCase [health_census, road_network] ''road'' ''All'' = [road_network]"
proof -
  have low: "lowers_ascii ascii_toLowerCase"
    by (simp add: lowers_ascii_def)
  have needle: "is_ascii ''ROAD''"
    by (simp add: is_ascii_def)
  have cat: "\<forall>d \<in> set [health_census, road_network]. is_ascii (name d) \<and> is_ascii (description d)"
    by (simp add: is_ascii_def health_census_def road_network_def)
  have h: "name health_census = ''Health Census'' \<and> category health_census = ''Social''
      \<and> is_ascii (description health_census)
      \<and> \<not> contains_ignoring_case (description health_census) ''road''"
    by (simp add: health_census_def is_ascii_def contains_ignoring_case_lower ascii_toLowerCase_def
        ascii_lower_char_def js_includes_sublist [symmetric])
  have r: "name road_network = ''Road Network'' \<and> category road_network = ''Infrastructure''"
    by (simp add: road_network_def)
  have upper: "filtered ascii_toLowerCase [health_census, road_network] ''ROAD'' ''All'' = [road_network]"
    by (simp add: filtered_def health_census_def road_network_def ascii_toLowerCase_def
        ascii_lower_char_def)
  from filterDomains_keeps_lowered_matches [of ascii_toLowerCase "[health_census, road_network]"
      "''ROAD''" "''All''" sample_library health_census road_network] low needle cat
  have spec: "filtered ascii_toLowerCase [health_census, road_network] ''ROAD'' ''All''
       = filter (spec_matches ''ROAD'' ''All'') [health_census, road_network]"
    by blast
  from filterDomains_keeps_lowered_matches [of ascii_toLowerCase "[health_census, road_network]"
      "''ROAD''" "''All''" sample_library health_census road_network] low h r
  have scen: "filtered ascii_toLowerCase [health_census, road_network] ''road'' ''All'' = [road_network]"
    by blast
  from cat have each: "is_ascii (name health_census) \<and> is_ascii (description health_census)
      \<and> is_ascii (name road_network) \<and> is_ascii (description road_network)"
    by simp
  from low needle each spec upper h r scen show ?thesis
    by blast
qed

text \<open>
  C6. Filtering is idempotent: filtering the output of the filter again, with the same
  search term and category, gives that output back, whatever the built-in
  \<open>toLowerCase\<close> returns. The same holds for the component when the filtered list is
  fed back as its catalog.
\<close>

theorem filtered_idempotent:
  "filtered toLowerCase (filtered toLowerCase doms term cat) term cat = filtered toLowerCase doms term cat
   \<and> filteredDomains (filterDomains toLowerCase
        ((filterDomains toLowerCase s)\<lparr>domains := filteredDomains (filterDomains toLowerCase s)\<rparr>))
       = filteredDomains (filterDomains toLowerCase s)"
proof -
  have idem: "filtered toLowerCase (filtered toLowerCase ds term' cat') term' cat'
      = filtered toLowerCase ds term' cat'" for ds term' cat'
    by (auto simp: filtered_def Let_def intro!: filter_cong)
  show ?thesis
    by (simp add: filterDomains_def idem)
qed

theorem filtered_idempotent_witness:
  "filtered ascii_toLowerCase (filtered ascii_toLowerCase [health_census, road_network] ''road'' ''All'')
       ''road'' ''All''
     = filtered ascii_toLowerCase [health_census, road_network] ''road'' ''All''
   \<and> filtered ascii_toLowerCase [health_census, road_network] ''road'' ''All'' = [road_network]"
proof -
  have once: "filtered ascii_toLowerCase [health_census, road_network] ''road'' ''All'' = [road_network]"
    by (simp add: filtered_def health_census_def road_network_def ascii_toLowerCase_def
        ascii_lower_char_def)
  from filtered_idempotent [of ascii_toLowerCase "[health_census, road_network]" "''road''" "''All''"
      sample_library] once
  show ?thesis by blast
qed

section \<open>Properties of the upgrade flow\<close>

text \<open>
  C7, as stated, asks that the flow is closed whenever verification returns success.
  The refresh is awaited inside the \<open>try\<close> block, before \<open>onClose()\<close>: when it
  rejects, the \<open>catch\<close> block shows the support alert and the flow is not closed.
\<close>

theorem handler_refresh_rejects_flow_stays_open:
  "handler sample_profile sample_payment (Response 200 (Some \<lparr>verify_status = Some ''success''\<rparr>))
      (Some Rejects)
     = [VerifyPaymentPost ''order_9'' ''pay_42'' ''sig'' ''g-17'',
        Alert (party_popper @ '' Payment Successful! You now have unlimited chats!''),
        UpgradeSuccessCall,
        ConsoleError ''Verification error:'',
        Alert ''Payment received but verification failed. Contact support with Payment ID: pay_42'']
   \<and> CloseCall \<notin> set (handler sample_profile sample_payment
                          (Response 200 (Some \<lparr>verify_status = Some ''success''\<rparr>)) (Some Rejects))"
  by (simp add: handler_def Let_def sample_profile_def sample_payment_def)

text \<open>
  C7, amended. When the verification reply does not carry the status \<open>success\<close>,
  and likewise when the request is rejected or the reply cannot be read, the handler
  logs the error and shows the support-contact alert that ends with the payment
  identifier, and does nothing else: it neither calls the refresh nor closes the flow. When the reply carries \<open>success\<close>, a refresh
  supplied by the caller is invoked, and the flow is closed once the refresh has
  returned normally; with no refresh supplied the flow is closed at once.
\<close>

theorem handler_verification_outcomes:
  "(verify_status verifyData \<noteq> Some ''success'' \<longrightarrow>
      handler user' response (Response st (Some verifyData)) onUpgradeSuccess
        = [VerifyPaymentPost (razorpay_order_id response) (razorpay_payment_id response)
             (razorpay_signature response) (google_id user'),
           ConsoleError ''Verification error:'',
           Alert (''Payment received but verification failed. Contact support with Payment ID: ''
                  @ razorpay_payment_id response)]
      \<and> UpgradeSuccessCall \<notin> set (handler user' response (Response st (Some verifyData)) onUpgradeSuccess)
      \<and> CloseCall \<notin> set (handler user' response (Response st (Some verifyData)) onUpgradeSuccess))
   \<and> handler user' response NetworkError onUpgradeSuccess
       = [VerifyPaymentPost (razorpay_order_id response) (razorpay_payment_id response)
            (razorpay_signature response) (google_id user'),
          ConsoleError ''Verification error:'',
          Alert (''Payment received but verification failed. Contact support with Payment ID: ''
                 @ razorpay_payment_id response)]
   \<and> handler user' response (Response st None) onUpgradeSuccess
       = [VerifyPaymentPost (razorpay_order_id response) (razorpay_payment_id response)
            (razorpay_signature response) (google_id user'),
          ConsoleError ''Verification error:'',
          Alert (''Payment received but verification failed. Contact support with Payment ID: ''
                 @ razorpay_payment_id response)]
   \<and> UpgradeSuccessCall \<notin> set (handler user' response NetworkError onUpgradeSuccess)
   \<and> CloseCall \<notin> set (handler user' response NetworkError onUpgradeSuccess)
   \<and> UpgradeSuccessCall \<notin> set (handler user' response (Response st None) onUpgradeSuccess)
   \<and> CloseCall \<notin> set (handler user' response (Response st None) onUpgradeSuccess)
   \<and> (verify_status verifyData = Some ''success'' \<longrightarrow>
      UpgradeSuccessCall \<in> set (handler user' response (Response st (Some verifyData)) (Some outcome))
      \<and> handler user' response (Response st (Some verifyData)) (Some Resolves)
          = [VerifyPaymentPost (razorpay_order_id response) (razorpay_payment_id response)
               (razorpay_signature response) (google_id user'),
             Alert (party_popper @ '' Payment Successful! You now have unlimited chats!''),
             UpgradeSuccessCall, CloseCall]
      \<and> handler user' response (Response st (Some verifyData)) None
          = [VerifyPaymentPost (razorpay_order_id response) (razorpay_payment_id response)
               (razorpay_signature response) (google_id user'),
             Alert (party_popper @ '' Payment Successful! You now have unlimited chats!''),
             CloseCall])"
  by (cases outcome) (simp_all add: handler_def Let_def)

theorem handler_verification_outcomes_witness:
  "verify_status \<lparr>verify_status = Some ''failed''\<rparr> \<noteq> Some ''success''
   \<and> handler sample_profile sample_payment (Response 200 (Some \<lparr>verify_status = Some ''failed''\<rparr>))
        (Some Resolves)
       = [VerifyPaymentPost ''order_9'' ''pay_42'' ''sig'' ''g-17'',
          ConsoleError ''Verification error:'',
          Alert ''Payment received but verification failed. Contact support with Payment ID: pay_42'']
   \<and> verify_status \<lparr>verify_status = Some ''success''\<rparr> = Some ''success''
   \<and> handler sample_profile sample_payment (Response 200 (Some \<lparr>verify_status = Some ''success''\<rparr>))
        (Some Resolves)
       = [VerifyPaymentPost ''order_9'' ''pay_42'' ''sig'' ''g-17'',
          Alert (party_popper @ '' Payment Successful! You now have unlimited chats!''),
          UpgradeSuccessCall, CloseCall]"
proof -
  have bad: "verify_status \<lparr>verify_status = Some ''failed''\<rparr> \<noteq> Some ''success''"
    by simp
  have good: "verify_status \<lparr>verify_status = Some ''success''\<rparr> = Some ''success''"
    by simp
  have fields: "razorpay_order_id sample_payment = ''order_9''
      \<and> razorpay_payment_id sample_payment = ''pay_42''
      \<and> razorpay_signature sample_payment = ''sig''
      \<and> google_id sample_profile = ''g-17''"
    by (simp add: sample_payment_def sample_profile_def)
  from handler_verification_outcomes [of "\<lparr>verify_status = Some ''failed''\<rparr>" sample_profile
      sample_payment 200 "Some Resolves" Resolves] bad fields
  have refused: "handler sample_profile sample_payment
        (Response 200 (Some \<lparr>verify_status = Some ''failed''\<rparr>)) (Some Resolves)
       = [VerifyPaymentPost ''order_9'' ''pay_42'' ''sig'' ''g-17'',
          ConsoleError ''Verification error:'',
          Alert ''Payment received but verification failed. Contact support with Payment ID: pay_42'']"
    by simp
  from handler_verification_outcomes [of "\<lparr>verify_status = Some ''success''\<rparr>" sample_profile
      sample_payment 200 None Resolves] good fields
  have verified: "handler sample_profile sample_payment
        (Response 200 (Some \<lparr>verify_status = Some ''success''\<rparr>)) (Some Resolves)
       = [VerifyPaymentPost ''order_9'' ''pay_42'' ''sig'' ''g-17'',
          Alert (party_popper @ '' Payment Successful! You now have unlimited chats!''),
          UpgradeSuccessCall, CloseCall]"
    by simp
  from refused verified bad good show ?thesis
    by blast
qed

end
